theory Spec2Isabelle
  imports Complex_Main "HOL-Library.Word"
begin

section \<open>Numeric conventions\<close>

text \<open>
  The C++ sources use \<open>uint64_t\<close>/\<open>size_t\<close> counters and \<open>double\<close> rates.
  Unsigned 64-bit values are \<open>64 word\<close>, so \<open>+\<close> and \<open>-\<close> wrap as in C++.
  A \<open>double\<close> is modelled by the real number it denotes: order comparisons of finite
  doubles are the comparisons of these reals; rounding, infinities and NaN are not
  modelled. \<open>to_double\<close> is \<open>static_cast<double>\<close> of an unsigned counter.
\<close>

type_synonym u64 = "64 word"

definition to_double :: "u64 \<Rightarrow> real" where
  "to_double x = real (unat x)"

section \<open>monitoring/trained_classifier.h\<close>

datatype ExecutionPhase = DenseSequential | SparseRandom | PointerChasing | Unknown

text \<open>\<open>TrainedPhaseClassifier::classify\<close>. The seven locals are bound as in the source;
  the final \<open>return Unknown\<close> after the tree is unreachable.\<close>

definition classify :: "real list \<Rightarrow> ExecutionPhase" where
  "classify features =
     (if length features < 7 then Unknown
      else
        let l3_miss_rate = features ! 0;
            ipc = features ! 1;
            branch_miss_rate = features ! 2;
            l1_misses = features ! 3;
            l2_misses = features ! 4;
            instructions = features ! 5;
            cycles = features ! 6
        in
          if l3_miss_rate \<le> 0.008 then
            (if ipc \<le> 1.218 then
               (if branch_miss_rate \<le> 0.043 then SparseRandom
                else (if l3_miss_rate \<le> 0.004 then DenseSequential else PointerChasing))
             else
               (if l3_miss_rate \<le> 0.003 then DenseSequential
                else (if branch_miss_rate \<le> 0.035 then DenseSequential else PointerChasing)))
          else
            (if ipc \<le> 1.044 then
               (if branch_miss_rate \<le> 0.052 then SparseRandom else PointerChasing)
             else
               (if l3_miss_rate \<le> 0.015 then PointerChasing else SparseRandom)))"

text \<open>The decision tree as the specification (section 4.2) prints it, over the three
  named features. This definition follows the specification's text, not the source.\<close>

fun spec_decision_tree :: "real \<Rightarrow> real \<Rightarrow> real \<Rightarrow> ExecutionPhase" where
  "spec_decision_tree l3_miss_rate ipc branch_miss_rate =
     (if l3_miss_rate \<le> 0.008 then
        (if ipc \<le> 1.218 then
           (if branch_miss_rate \<le> 0.043 then SparseRandom
            else if l3_miss_rate \<le> 0.004 then DenseSequential else PointerChasing)
         else
           (if l3_miss_rate \<le> 0.003 then DenseSequential
            else if branch_miss_rate \<le> 0.035 then DenseSequential else PointerChasing))
      else
        (if ipc \<le> 1.044 then
           (if branch_miss_rate \<le> 0.052 then SparseRandom else PointerChasing)
         else
           (if l3_miss_rate \<le> 0.015 then PointerChasing else SparseRandom)))"

section \<open>monitoring/performance_monitor.h and performance_monitor.cpp\<close>

record PerformanceSample =
  timestamp_ns :: u64
  instructions :: u64
  cycles :: u64
  l1_misses :: u64
  l2_misses :: u64
  l3_misses :: u64
  branch_misses :: u64
  phase :: ExecutionPhase

text \<open>The derived metrics: each is a conditional expression that tests the denominator
  and yields \<open>0.0\<close> when it is zero.\<close>

definition ipc :: "PerformanceSample \<Rightarrow> real" where
  "ipc s = (if cycles s \<noteq> 0 then to_double (instructions s) / to_double (cycles s) else 0)"

definition l1_miss_rate :: "PerformanceSample \<Rightarrow> real" where
  "l1_miss_rate s =
     (if instructions s \<noteq> 0 then to_double (l1_misses s) / to_double (instructions s) else 0)"

definition l2_miss_rate :: "PerformanceSample \<Rightarrow> real" where
  "l2_miss_rate s =
     (if instructions s \<noteq> 0 then to_double (l2_misses s) / to_double (instructions s) else 0)"

definition l3_miss_rate :: "PerformanceSample \<Rightarrow> real" where
  "l3_miss_rate s =
     (if instructions s \<noteq> 0 then to_double (l3_misses s) / to_double (instructions s) else 0)"

definition branch_miss_rate :: "PerformanceSample \<Rightarrow> real" where
  "branch_miss_rate s =
     (if instructions s \<noteq> 0 then to_double (branch_misses s) / to_double (instructions s)
      else 0)"

record PerformanceMonitor =
  samples :: "PerformanceSample list"
  perf_fds :: "int list"
  initialized :: bool
  monitoring :: bool
  sample_interval_ms :: u64

text \<open>The constructor: no samples, no descriptors, not initialised, interval 1.\<close>

definition new_PerformanceMonitor :: PerformanceMonitor where
  "new_PerformanceMonitor =
     \<lparr>samples = [], perf_fds = [], initialized = False, monitoring = False,
      sample_interval_ms = 1\<rparr>"


text \<open>The feature vector built inside \<open>readCounters\<close> (lines 167-175) and the one built
  by \<open>extractFeatures\<close> (lines 197-203).\<close>

definition readCounters_features :: "PerformanceSample \<Rightarrow> real list" where
  "readCounters_features sample =
     [l3_miss_rate sample, ipc sample, branch_miss_rate sample,
      to_double (l1_misses sample), to_double (l2_misses sample),
      to_double (instructions sample), to_double (cycles sample)]"

text \<open>\<open>PerformanceMonitor::readCounters\<close>. \<open>tsc\<close> is the time-stamp counter, \<open>uninit\<close> the
  indeterminate initial content of the local \<open>sample\<close>, and \<open>reads i\<close> the first value
  delivered by \<open>read\<close> on descriptor \<open>i\<close> (\<open>None\<close> when the read is short). The sample is
  returned to the caller; it is not stored in \<open>samples\<close>.\<close>

definition readCounters ::
  "u64 \<Rightarrow> PerformanceSample \<Rightarrow> (nat \<Rightarrow> u64 option) \<Rightarrow> PerformanceMonitor \<Rightarrow> PerformanceSample" where
  "readCounters tsc uninit reads m =
     (let s0 = uninit\<lparr>timestamp_ns := tsc\<rparr>;
          s6 = (if length (perf_fds m) \<ge> 6 then
                  let s1 = (case reads 0 of Some v \<Rightarrow> s0\<lparr>instructions := v\<rparr> | None \<Rightarrow> s0);
                      s2 = (case reads 1 of Some v \<Rightarrow> s1\<lparr>cycles := v\<rparr> | None \<Rightarrow> s1);
                      s3 = (case reads 2 of Some v \<Rightarrow> s2\<lparr>l1_misses := v\<rparr> | None \<Rightarrow> s2);
                      s4 = (case reads 3 of Some v \<Rightarrow> s3\<lparr>l2_misses := v\<rparr> | None \<Rightarrow> s3);
                      s5 = (case reads 4 of Some v \<Rightarrow> s4\<lparr>l3_misses := v\<rparr> | None \<Rightarrow> s4)
                  in (case reads 5 of Some v \<Rightarrow> s5\<lparr>branch_misses := v\<rparr> | None \<Rightarrow> s5)
                else s0)
      in s6\<lparr>phase := classify (readCounters_features s6)\<rparr>)"


definition extractFeatures :: "PerformanceMonitor \<Rightarrow> real list" where
  "extractFeatures m =
     (if samples m = [] then []
      else
        let sample = last (samples m)
        in [l3_miss_rate sample, ipc sample, branch_miss_rate sample,
            to_double (l1_misses sample), to_double (l2_misses sample)])"

text \<open>A monitor holding one sample, used to evaluate the accessors.\<close>

definition sample_1000 :: PerformanceSample where
  "sample_1000 =
     \<lparr>timestamp_ns = 1, instructions = 1000, cycles = 500, l1_misses = 40, l2_misses = 20,
      l3_misses = 2, branch_misses = 15, phase = DenseSequential\<rparr>"

definition monitor_one_sample :: PerformanceMonitor where
  "monitor_one_sample = new_PerformanceMonitor\<lparr>samples := [sample_1000]\<rparr>"

definition sample_no_cycles :: PerformanceSample where
  "sample_no_cycles =
     \<lparr>timestamp_ns = 0, instructions = 5, cycles = 0, l1_misses = 0, l2_misses = 0,
      l3_misses = 0, branch_misses = 0, phase = Unknown\<rparr>"

section \<open>engine/adaptive_runtime.h\<close>

text \<open>The counter structure declared at the end of the header. Its \<open>cycles\<close>,
  \<open>instructions\<close> and \<open>branch_misses\<close> fields carry the prefix \<open>pc_\<close> here, since the
  sample structure of the monitor already uses these names.\<close>

record PerformanceCounters =
  pc_cycles :: u64
  pc_instructions :: u64
  l1_cache_hits :: u64
  l1_cache_misses :: u64
  l2_cache_hits :: u64
  l2_cache_misses :: u64
  l3_cache_hits :: u64
  l3_cache_misses :: u64
  branches :: u64
  pc_branch_misses :: u64
  prefetch_attempts :: u64
  prefetch_hits :: u64

definition new_PerformanceCounters :: PerformanceCounters where
  "new_PerformanceCounters =
     \<lparr>pc_cycles = 0, pc_instructions = 0, l1_cache_hits = 0, l1_cache_misses = 0,
      l2_cache_hits = 0, l2_cache_misses = 0, l3_cache_hits = 0, l3_cache_misses = 0,
      branches = 0, pc_branch_misses = 0, prefetch_attempts = 0, prefetch_hits = 0\<rparr>"

record Config =
  sampling_interval_ms :: u64
  adaptation_interval_ms :: u64
  history_size :: u64
  enable_logging :: bool

definition default_Config :: Config where
  "default_Config =
     \<lparr>sampling_interval_ms = 1, adaptation_interval_ms = 10, history_size = 1000,
      enable_logging = True\<rparr>"

record PhaseMetrics =
  timestamp_ms :: u64
  l1_hit_rate :: real
  l2_hit_rate :: real
  l3_hit_rate :: real
  instructions_per_cycle :: real
  branch_accuracy :: real
  prefetch_useful_rate :: real

text \<open>\<open>AdaptiveRuntime::ExecutionPhase\<close>, an enumeration of its own, distinct from the
  classifier's.\<close>

datatype AR_ExecutionPhase = UNKNOWN | DENSE_SEQUENTIAL | SPARSE_RANDOM | POINTER_CHASING

text \<open>Modelled from the spec: \<open>prefetch/prefetcher_interface.h\<close>, which declares the
  \<open>Prefetcher\<close> the runtime holds, is not among the sources. The attached prefetcher is
  represented by the sequence of calls it has received, oldest first: the two setters the
  runtime invokes, and the \<open>reset\<close> operation of the capability contract (section 4.3).
  A null \<open>shared_ptr\<close> is \<open>None\<close>.\<close>

datatype PrefetcherCall = setPrefetchDistance nat | setPrefetchDegree nat | reset

text \<open>Modelled from the spec: the distance and the degree in force after a sequence of
  calls are the arguments of the latest setter calls (\<open>None\<close>: never set).\<close>

definition prefetch_distance_of :: "PrefetcherCall list \<Rightarrow> nat option" where
  "prefetch_distance_of calls =
     foldl (\<lambda>d c. case c of setPrefetchDistance n \<Rightarrow> Some n | _ \<Rightarrow> d) None calls"

definition prefetch_degree_of :: "PrefetcherCall list \<Rightarrow> nat option" where
  "prefetch_degree_of calls =
     foldl (\<lambda>d c. case c of setPrefetchDegree n \<Rightarrow> Some n | _ \<Rightarrow> d) None calls"

text \<open>Lines written to the error stream: the transition line of \<open>logPhaseTransition\<close>
  and the per-phase line of \<open>updatePrefetchingStrategy\<close>.\<close>

datatype LogLine =
  PhaseTransitionLine AR_ExecutionPhase AR_ExecutionPhase
  | StrategyLine AR_ExecutionPhase

record AdaptiveRuntime =
  monitor :: PerformanceMonitor
  prefetcher :: "PrefetcherCall list option"
  config :: Config
  current_phase :: AR_ExecutionPhase
  is_adapting :: bool
  metrics_history :: "PhaseMetrics list"
  total_adaptations :: u64
  stderr_lines :: "LogLine list"

definition new_AdaptiveRuntime ::
  "PerformanceMonitor \<Rightarrow> PrefetcherCall list option \<Rightarrow> Config \<Rightarrow> AdaptiveRuntime" where
  "new_AdaptiveRuntime mon pf cfg =
     \<lparr>monitor = mon, prefetcher = pf, config = cfg, current_phase = UNKNOWN,
      is_adapting = False, metrics_history = [], total_adaptations = 0, stderr_lines = []\<rparr>"

text \<open>Unsigned integer division; a zero divisor is undefined behaviour in C++ (a trap on
  the target), reported as a fault.\<close>

datatype fault = IntegerDivisionByZero

definition udiv :: "u64 \<Rightarrow> u64 \<Rightarrow> fault + u64" where
  "udiv a b = (if b = 0 then Inl IntegerDivisionByZero else Inr (a div b))"

text \<open>\<open>extractMetrics\<close>. The three hit rates divide two \<open>uint64_t\<close> operands, so the
  quotient is an integer, converted to \<open>double\<close> on assignment. The other three rates
  convert the numerator first and divide in \<open>double\<close>; their denominators \<open>x + 1\<close> are still
  computed in \<open>uint64_t\<close>.\<close>

definition extractMetrics :: "PerformanceCounters \<Rightarrow> u64 \<Rightarrow> fault + PhaseMetrics" where
  "extractMetrics sample timestamp =
     (case udiv (l1_cache_hits sample) (l1_cache_hits sample + l1_cache_misses sample + 1) of
        Inl e \<Rightarrow> Inl e
      | Inr q1 \<Rightarrow>
     (case udiv (l2_cache_hits sample) (l2_cache_hits sample + l2_cache_misses sample + 1) of
        Inl e \<Rightarrow> Inl e
      | Inr q2 \<Rightarrow>
     (case udiv (l3_cache_hits sample) (l3_cache_hits sample + l3_cache_misses sample + 1) of
        Inl e \<Rightarrow> Inl e
      | Inr q3 \<Rightarrow>
        Inr \<lparr>timestamp_ms = timestamp,
             l1_hit_rate = to_double q1,
             l2_hit_rate = to_double q2,
             l3_hit_rate = to_double q3,
             instructions_per_cycle =
               to_double (pc_instructions sample) / to_double (pc_cycles sample + 1),
             branch_accuracy =
               1 - to_double (pc_branch_misses sample) / to_double (branches sample + 1),
             prefetch_useful_rate =
               to_double (prefetch_hits sample) / to_double (prefetch_attempts sample + 1)\<rparr>)))"

text \<open>The hit rate in the words of the specification: the real quotient
  \<open>hits / (hits + misses + 1)\<close>. This definition follows the specification, not the source.\<close>

definition spec_hit_rate :: "u64 \<Rightarrow> u64 \<Rightarrow> real" where
  "spec_hit_rate hits misses = real (unat hits) / (real (unat hits) + real (unat misses) + 1)"

text \<open>\<open>computeAverageMetrics\<close>; it is called only on a history of at least 10 entries, so
  \<open>back()\<close> is defined.\<close>

definition computeAverageMetrics :: "PhaseMetrics list \<Rightarrow> PhaseMetrics" where
  "computeAverageMetrics history =
     (let avg0 = \<lparr>timestamp_ms = timestamp_ms (last history), l1_hit_rate = 0,
                  l2_hit_rate = 0, l3_hit_rate = 0, instructions_per_cycle = 0,
                  branch_accuracy = 0, prefetch_useful_rate = 0\<rparr>;
          avg = foldl (\<lambda>a metric.
                   a\<lparr>l1_hit_rate := l1_hit_rate a + l1_hit_rate metric,
                     l2_hit_rate := l2_hit_rate a + l2_hit_rate metric,
                     l3_hit_rate := l3_hit_rate a + l3_hit_rate metric,
                     instructions_per_cycle :=
                       instructions_per_cycle a + instructions_per_cycle metric,
                     branch_accuracy := branch_accuracy a + branch_accuracy metric,
                     prefetch_useful_rate :=
                       prefetch_useful_rate a + prefetch_useful_rate metric\<rparr>) avg0 history;
          count = real (length history)
      in avg\<lparr>l1_hit_rate := l1_hit_rate avg / count,
             l2_hit_rate := l2_hit_rate avg / count,
             l3_hit_rate := l3_hit_rate avg / count,
             instructions_per_cycle := instructions_per_cycle avg / count,
             branch_accuracy := branch_accuracy avg / count,
             prefetch_useful_rate := prefetch_useful_rate avg / count\<rparr>)"

definition detectExecutionPhase :: "PhaseMetrics \<Rightarrow> AR_ExecutionPhase" where
  "detectExecutionPhase metrics =
     (if l1_hit_rate metrics > 0.85 then DENSE_SEQUENTIAL
      else if l1_hit_rate metrics > 0.50 \<and> prefetch_useful_rate metrics > 0.6
        then SPARSE_RANDOM
      else if prefetch_useful_rate metrics < 0.4 then POINTER_CHASING
      else SPARSE_RANDOM)"

definition log_if :: "bool \<Rightarrow> LogLine \<Rightarrow> AdaptiveRuntime \<Rightarrow> AdaptiveRuntime" where
  "log_if enabled line rt =
     (if enabled then rt\<lparr>stderr_lines := stderr_lines rt @ [line]\<rparr> else rt)"

definition updatePrefetchingStrategy :: "AR_ExecutionPhase \<Rightarrow> AdaptiveRuntime \<Rightarrow> AdaptiveRuntime" where
  "updatePrefetchingStrategy ph rt =
     (case prefetcher rt of
        None \<Rightarrow> rt
      | Some calls \<Rightarrow>
          (case ph of
             DENSE_SEQUENTIAL \<Rightarrow>
               log_if (enable_logging (config rt)) (StrategyLine DENSE_SEQUENTIAL)
                 (rt\<lparr>prefetcher :=
                       Some (calls @ [setPrefetchDistance 256, setPrefetchDegree 4])\<rparr>)
           | SPARSE_RANDOM \<Rightarrow>
               log_if (enable_logging (config rt)) (StrategyLine SPARSE_RANDOM)
                 (rt\<lparr>prefetcher :=
                       Some (calls @ [setPrefetchDistance 128, setPrefetchDegree 2])\<rparr>)
           | POINTER_CHASING \<Rightarrow>
               log_if (enable_logging (config rt)) (StrategyLine POINTER_CHASING)
                 (rt\<lparr>prefetcher :=
                       Some (calls @ [setPrefetchDistance 64, setPrefetchDegree 1])\<rparr>)
           | UNKNOWN \<Rightarrow> rt))"

definition hintPhase :: "AR_ExecutionPhase \<Rightarrow> AdaptiveRuntime \<Rightarrow> AdaptiveRuntime" where
  "hintPhase ph rt = updatePrefetchingStrategy ph rt"

definition getTotalAdaptations :: "AdaptiveRuntime \<Rightarrow> u64" where
  "getTotalAdaptations rt = total_adaptations rt"

text \<open>The body of \<open>adaptationLoop\<close>, in its two parts. First part (lines 159-171): when
  the sampling interval has elapsed, a counter reading is converted and stored, and the
  oldest entry is dropped once the history is longer than \<open>history_size\<close>.\<close>

definition store_in_history :: "u64 \<Rightarrow> PhaseMetrics list \<Rightarrow> PhaseMetrics \<Rightarrow> PhaseMetrics list" where
  "store_in_history capacity history metrics =
     (let pushed = history @ [metrics]
      in if length pushed > unat capacity then tl pushed else pushed)"

definition sampling_step ::
  "u64 \<Rightarrow> PerformanceCounters \<Rightarrow> AdaptiveRuntime \<times> u64 \<Rightarrow> fault + AdaptiveRuntime \<times> u64" where
  "sampling_step current_time sample st =
     (case st of (rt, last_adaptation_time) \<Rightarrow>
        if current_time - last_adaptation_time \<ge> sampling_interval_ms (config rt) then
          (case extractMetrics sample current_time of
             Inl e \<Rightarrow> Inl e
           | Inr metrics \<Rightarrow>
               Inr (rt\<lparr>metrics_history :=
                         store_in_history (history_size (config rt)) (metrics_history rt)
                           metrics\<rparr>,
                    current_time))
        else Inr (rt, last_adaptation_time))"

text \<open>Second part (lines 173-186), the adaptation tick.\<close>

definition adaptation_tick :: "AdaptiveRuntime \<Rightarrow> AdaptiveRuntime" where
  "adaptation_tick rt =
     (if length (metrics_history rt) \<ge> 10 then
        let avg_metrics = computeAverageMetrics (metrics_history rt);
            detected_phase = detectExecutionPhase avg_metrics
        in if detected_phase \<noteq> current_phase rt then
             let rt1 = log_if (enable_logging (config rt))
                         (PhaseTransitionLine (current_phase rt) detected_phase) rt;
                 rt2 = updatePrefetchingStrategy detected_phase rt1
             in rt2\<lparr>current_phase := detected_phase,
                    total_adaptations := total_adaptations rt2 + 1\<rparr>
           else rt
      else rt)"

definition loop_iteration ::
  "u64 \<Rightarrow> PerformanceCounters \<Rightarrow> AdaptiveRuntime \<times> u64 \<Rightarrow> fault + AdaptiveRuntime \<times> u64" where
  "loop_iteration current_time sample st =
     (case sampling_step current_time sample st of
        Inl e \<Rightarrow> Inl e
      | Inr (rt, t) \<Rightarrow> Inr (adaptation_tick rt, t))"

text \<open>The loop runs while \<open>is_adapting\<close> is set; the flag is cleared by another thread.
  The iterations executed before that are driven by the list of their inputs: the clock
  value read at the top of the iteration and the counter reading available to it. The
  second component of the loop state is the local \<open>last_adaptation_time\<close>.\<close>

fun adaptationLoop ::
  "(u64 \<times> PerformanceCounters) list \<Rightarrow> AdaptiveRuntime \<times> u64 \<Rightarrow> fault + AdaptiveRuntime \<times> u64" where
  "adaptationLoop [] st = Inr st"
| "adaptationLoop ((current_time, sample) # rest) st =
     (case loop_iteration current_time sample st of
        Inl e \<Rightarrow> Inl e
      | Inr st' \<Rightarrow> adaptationLoop rest st')"

section \<open>engine/prefetch/strided_prefetcher.h\<close>

text \<open>Addresses (\<open>const void*\<close>) are 64-bit words; the null pointer is \<open>0\<close>. The queue
  \<open>recent_addresses\<close> is a list with its front at the head.\<close>

record StridedPrefetcher =
  sp_prefetch_distance :: u64
  sp_cache_line_size :: u64
  detected_stride :: u64
  recent_addresses :: "u64 list"

definition new_StridedPrefetcher :: StridedPrefetcher where
  "new_StridedPrefetcher =
     \<lparr>sp_prefetch_distance = 1, sp_cache_line_size = 64, detected_stride = 0,
      recent_addresses = []\<rparr>"

definition HISTORY_SIZE :: nat where
  "HISTORY_SIZE = 8"

text \<open>The loop over the copied queue (lines 66-79): \<open>prev_addr\<close> starts as \<open>nullptr\<close>, and
  a difference is recorded only when \<open>prev_addr != nullptr\<close>. The difference of two
  \<open>const char*\<close> is a signed 64-bit value.\<close>

fun collect_strides :: "u64 \<Rightarrow> u64 list \<Rightarrow> int list" where
  "collect_strides prev_addr [] = []"
| "collect_strides prev_addr (current_addr # queue_copy) =
     (if prev_addr \<noteq> 0 then [sint (current_addr - prev_addr)] else [])
     @ collect_strides current_addr queue_copy"

text \<open>The consistency loop (lines 86-91) over \<open>strides[1..]\<close>, leaving at the first
  difference.\<close>

fun consistent_from :: "int \<Rightarrow> int list \<Rightarrow> bool" where
  "consistent_from first_stride [] = True"
| "consistent_from first_stride (s # rest) =
     (if s \<noteq> first_stride then False else consistent_from first_stride rest)"

definition detectStride :: "u64 \<Rightarrow> StridedPrefetcher \<Rightarrow> StridedPrefetcher" where
  "detectStride addr p =
     (let pushed = recent_addresses p @ [addr]
      in if length pushed < HISTORY_SIZE then p\<lparr>recent_addresses := pushed\<rparr>
         else
           let strides = collect_strides 0 pushed;
               stride' =
                 (case strides of
                    [] \<Rightarrow> detected_stride p
                  | first_stride # rest \<Rightarrow>
                      if consistent_from first_stride rest \<and> first_stride > 0
                      then word_of_int first_stride
                      else detected_stride p);
               kept = (if length pushed > HISTORY_SIZE then tl pushed else pushed)
           in p\<lparr>detected_stride := stride', recent_addresses := kept\<rparr>)"

text \<open>Feeding a sequence of addresses, one \<open>detectStride\<close> call per address.\<close>

definition feed_addresses :: "u64 list \<Rightarrow> StridedPrefetcher \<Rightarrow> StridedPrefetcher" where
  "feed_addresses addrs p = foldl (\<lambda>q a. detectStride a q) p addrs"

text \<open>The pairwise deltas of a window, every consecutive pair included, and the
  condition of the specification: all deltas equal and positive. These two definitions
  follow the specification, not the source.\<close>

fun spec_deltas :: "u64 list \<Rightarrow> int list" where
  "spec_deltas (a # b # rest) = sint (b - a) # spec_deltas (b # rest)"
| "spec_deltas _ = []"

definition spec_window_consistent :: "u64 list \<Rightarrow> bool" where
  "spec_window_consistent window =
     (case spec_deltas window of
        [] \<Rightarrow> False
      | d # ds \<Rightarrow> list_all (\<lambda>x. x = d) ds \<and> d > 0)"

section \<open>engine/prefetch/ima_prefetcher.h\<close>

record IMAPrefetcher =
  ima_prefetch_distance :: u64
  ima_cache_line_size :: u64
  pointer_chains :: "u64 \<rightharpoonup> u64 list"

definition new_IMAPrefetcher :: IMAPrefetcher where
  "new_IMAPrefetcher =
     \<lparr>ima_prefetch_distance = 1, ima_cache_line_size = 64, pointer_chains = Map.empty\<rparr>"

definition MAX_CHAIN_LENGTH :: nat where
  "MAX_CHAIN_LENGTH = 4"

text \<open>\<open>IMAPrefetcher::prefetch\<close> issues hints and changes no state; the result is the list
  of hinted addresses in the order of issue.\<close>

definition ima_prefetch :: "u64 \<Rightarrow> IMAPrefetcher \<Rightarrow> u64 list" where
  "ima_prefetch addr p =
     (case pointer_chains p addr of
        Some chain \<Rightarrow> take (unat (ima_prefetch_distance p)) chain
      | None \<Rightarrow> [addr + ima_cache_line_size p])"

definition ima_configure :: "u64 \<Rightarrow> u64 \<Rightarrow> IMAPrefetcher \<Rightarrow> IMAPrefetcher" where
  "ima_configure distance stride p =
     p\<lparr>ima_prefetch_distance := distance, ima_cache_line_size := stride\<rparr>"

definition ima_reset :: "IMAPrefetcher \<Rightarrow> IMAPrefetcher" where
  "ima_reset p = p\<lparr>pointer_chains := Map.empty\<rparr>"

text \<open>\<open>learnPointerChain\<close>: \<open>pointer_chains_[base_addr]\<close> creates an empty chain for a
  new key.\<close>

definition learnPointerChain :: "u64 \<Rightarrow> u64 \<Rightarrow> IMAPrefetcher \<Rightarrow> IMAPrefetcher" where
  "learnPointerChain base_addr target_addr p =
     (let chain = (case pointer_chains p base_addr of None \<Rightarrow> [] | Some c \<Rightarrow> c);
          chain' = (if length chain < MAX_CHAIN_LENGTH then chain @ [target_addr]
                    else tl chain @ [target_addr])
      in p\<lparr>pointer_chains := (pointer_chains p)(base_addr \<mapsto> chain')\<rparr>)"

text \<open>Training with a sequence of (from, to) pairs, and the length of the successor list
  of a key (0 when the key has none).\<close>

definition learn_all :: "(u64 \<times> u64) list \<Rightarrow> IMAPrefetcher \<Rightarrow> IMAPrefetcher" where
  "learn_all pairs p = foldl (\<lambda>q (a, b). learnPointerChain a b q) p pairs"

definition chain_length :: "IMAPrefetcher \<Rightarrow> u64 \<Rightarrow> nat" where
  "chain_length p k = (case pointer_chains p k of None \<Rightarrow> 0 | Some c \<Rightarrow> length c)"

section \<open>Test data and specification-side notions\<close>

text \<open>The rate "with the denominator floored at 1" of the specification (section 3). This
  definition follows the specification, not the source.\<close>

definition spec_floored_rate :: "u64 \<Rightarrow> u64 \<Rightarrow> real" where
  "spec_floored_rate num den = to_double num / max (to_double den) 1"

text \<open>A counter reading with 9 L1 hits and no misses; every other counter is 0.\<close>

definition counters_nine_hits :: PerformanceCounters where
  "counters_nine_hits = new_PerformanceCounters\<lparr>l1_cache_hits := 9\<rparr>"

text \<open>A window entry with timestamp \<open>t\<close> and an L1 hit rate of 0.9.\<close>

definition metrics_at :: "u64 \<Rightarrow> PhaseMetrics" where
  "metrics_at t =
     \<lparr>timestamp_ms = t, l1_hit_rate = 0.9, l2_hit_rate = 0.5, l3_hit_rate = 0.5,
      instructions_per_cycle = 1.5, branch_accuracy = 0.99, prefetch_useful_rate = 0.7\<rparr>"

text \<open>The phase-to-parameters table of the specification (section 4.4): prefetch
  distance and degree per phase, none for \<open>UNKNOWN\<close>. This definition follows the
  specification, not the source.\<close>

definition spec_strategy_table :: "AR_ExecutionPhase \<Rightarrow> (nat \<times> nat) option" where
  "spec_strategy_table ph =
     (case ph of
        DENSE_SEQUENTIAL \<Rightarrow> Some (256, 4)
      | SPARSE_RANDOM \<Rightarrow> Some (128, 2)
      | POINTER_CHASING \<Rightarrow> Some (64, 1)
      | UNKNOWN \<Rightarrow> None)"

text \<open>A freshly constructed runtime with an attached prefetcher that has received no
  call yet, and a history of ten entries whose L1 hit rate is 0.9.\<close>

definition runtime_dense_window :: AdaptiveRuntime where
  "runtime_dense_window =
     (new_AdaptiveRuntime new_PerformanceMonitor (Some []) default_Config)
       \<lparr>metrics_history := map metrics_at [1, 2, 3, 4, 5, 6, 7, 8, 9, 10]\<rparr>"






text \<open>Two address sequences for the strided prefetcher: one that starts at the null
  address and continues from 5 in steps of 64, and the constant-stride sequence of the
  specification's test.\<close>

definition null_first_window :: "u64 list" where
  "null_first_window = [0, 5, 69, 133, 197, 261, 325, 389]"

definition golden_addresses :: "u64 list" where
  "golden_addresses = [0, 64, 128, 192, 256, 320, 384, 448]"

text \<open>IMA prefetchers used for evaluation: a default-constructed one (distance 1) that
  learned two successors of address 4096, and one configured to distance 4 that learned
  four.\<close>

definition ima_two_successors :: IMAPrefetcher where
  "ima_two_successors =
     learnPointerChain 4096 12288 (learnPointerChain 4096 8192 new_IMAPrefetcher)"

definition ima_four_successors :: IMAPrefetcher where
  "ima_four_successors =
     learn_all [(4096, 100), (4096, 200), (4096, 300), (4096, 400)]
       (ima_configure 4 64 new_IMAPrefetcher)"

section \<open>Results on the classifier and the monitor\<close>

text \<open>C1. A feature vector with fewer than 7 elements classifies to \<open>Unknown\<close>; any other
  vector classifies to the phase the decision tree of the specification gives for
  its first three elements (so the last four never influence the result). The three golden
  vectors classify to DenseSequential, SparseRandom and PointerChasing.\<close>

theorem classify_is_spec_decision_tree:
  "classify fs =
     (if length fs < 7 then Unknown else spec_decision_tree (fs ! 0) (fs ! 1) (fs ! 2))
   \<and> classify [0.002, 1.9, 0.015, 800, 300, 950000, 500000] = DenseSequential
   \<and> classify [0.025, 0.8, 0.028, 4500, 2500, 1100000, 1400000] = SparseRandom
   \<and> classify [0.012, 0.95, 0.075, 1800, 900, 1000000, 1050000] = PointerChasing"
  by (simp add: classify_def Let_def)

theorem classify_is_spec_decision_tree_witness:
  "classify [0.002, 1.9] = Unknown
   \<and> classify [0.005, 1.0, 0.05, 0, 0, 0, 0] = PointerChasing"
  using classify_is_spec_decision_tree [of "[0.002, 1.9]"]
        classify_is_spec_decision_tree [of "[0.005, 1.0, 0.05, 0, 0, 0, 0]"]
  by simp

subsection \<open>Derived rates of a sample\<close>

lemma to_double_nonneg: "0 \<le> to_double x"
  unfolding to_double_def by (rule of_nat_0_le_iff)

lemma to_double_ge_1: "x \<noteq> 0 \<Longrightarrow> 1 \<le> to_double x"
proof -
  assume "x \<noteq> 0"
  then have "unat x \<noteq> 0" by (simp add: unat_eq_0)
  then have "1 \<le> unat x" by arith
  then have "real 1 \<le> real (unat x)" by (rule of_nat_mono)
  then show ?thesis unfolding to_double_def by simp
qed

lemma floored_rate_nonzero:
  "den \<noteq> 0 \<Longrightarrow> spec_floored_rate num den = to_double num / to_double den"
  using to_double_ge_1 [of den] by (simp add: spec_floored_rate_def max_def)

lemma guarded_rate_nonneg: "0 \<le> to_double num / to_double den"
  by (intro divide_nonneg_nonneg to_double_nonneg)

text \<open>C5, as stated, fails: for a sample with 5 instructions and 0 cycles, \<open>ipc()\<close> is 0,
  while the rate with the denominator floored at 1 is 5.\<close>

theorem derived_rates_floor_counterexample:
  "ipc sample_no_cycles = 0
   \<and> spec_floored_rate (instructions sample_no_cycles) (cycles sample_no_cycles) = 5"
  by (simp add: ipc_def spec_floored_rate_def sample_no_cycles_def to_double_def)

text \<open>C5, amended. For every sample, each derived-rate accessor is 0 when its denominator
  is 0 and equals the rate with the denominator floored at 1 otherwise; all five values
  are non-negative (and, being real numbers, finite).\<close>

theorem derived_rates_guarded:
  "ipc s = (if cycles s = 0 then 0 else spec_floored_rate (instructions s) (cycles s))
   \<and> l1_miss_rate s =
       (if instructions s = 0 then 0 else spec_floored_rate (l1_misses s) (instructions s))
   \<and> l2_miss_rate s =
       (if instructions s = 0 then 0 else spec_floored_rate (l2_misses s) (instructions s))
   \<and> l3_miss_rate s =
       (if instructions s = 0 then 0 else spec_floored_rate (l3_misses s) (instructions s))
   \<and> branch_miss_rate s =
       (if instructions s = 0 then 0 else spec_floored_rate (branch_misses s) (instructions s))
   \<and> 0 \<le> ipc s \<and> 0 \<le> l1_miss_rate s \<and> 0 \<le> l2_miss_rate s \<and> 0 \<le> l3_miss_rate s
   \<and> 0 \<le> branch_miss_rate s"
  by (simp add: ipc_def l1_miss_rate_def l2_miss_rate_def l3_miss_rate_def
      branch_miss_rate_def floored_rate_nonzero guarded_rate_nonneg)

theorem derived_rates_guarded_witness:
  "ipc sample_no_cycles = 0 \<and> ipc sample_1000 = 2 \<and> l3_miss_rate sample_1000 = 0.002"
  using derived_rates_guarded [of sample_no_cycles] derived_rates_guarded [of sample_1000]
  by (simp add: sample_no_cycles_def sample_1000_def spec_floored_rate_def to_double_def)

subsection \<open>The feature vector of the monitor\<close>

lemma extractFeatures_length:
  "length (extractFeatures m) = (if samples m = [] then 0 else 5)"
  by (simp add: extractFeatures_def Let_def)

text \<open>C2. On a monitor holding one sample (1000 instructions, 500 cycles, 40/20/2 cache
  misses, 15 branch misses), \<open>extractFeatures\<close> returns the five values
  \<open>[l3_miss_rate, ipc, branch_miss_rate, l1_misses, l2_misses]\<close>: instructions and cycles
  are missing, and the classifier answers \<open>Unknown\<close> on the result. The vector built in
  \<open>readCounters\<close> from the same sample has seven elements.\<close>

theorem extractFeatures_five_elements:
  "extractFeatures monitor_one_sample = [0.002, 2, 0.015, 40, 20]
   \<and> length (extractFeatures monitor_one_sample) = 5
   \<and> classify (extractFeatures monitor_one_sample) = Unknown
   \<and> length (readCounters_features sample_1000) = 7"
  by (simp add: extractFeatures_def monitor_one_sample_def new_PerformanceMonitor_def
      sample_1000_def l3_miss_rate_def ipc_def branch_miss_rate_def to_double_def
      classify_def readCounters_features_def)

subsection \<open>Windowed metrics\<close>

lemma udiv_hit_rate_zero:
  assumes "unat hits + unat misses + 1 < 2 ^ 64"
  shows "udiv hits (hits + misses + 1) = Inr 0"
proof -
  have u: "unat (hits + misses + 1) = unat hits + unat misses + 1"
    using assms by (simp add: unat_word_ariths)
  then have nz: "hits + misses + 1 \<noteq> 0" by (metis Suc_eq_plus1 nat.simps(3) unat_0 add.commute)
  have "unat hits < unat (hits + misses + 1)" using u by simp
  then have "unat (hits div (hits + misses + 1)) = 0" by (simp add: unat_div)
  then have "hits div (hits + misses + 1) = 0" by (simp add: unat_eq_0)
  with nz show ?thesis by (simp add: udiv_def)
qed

text \<open>Whenever the sums \<open>hits + misses + 1\<close> do not wrap, the three hit rates that
  \<open>extractMetrics\<close> stores are all 0: the quotient is taken in \<open>uint64_t\<close>.\<close>

lemma extractMetrics_hit_rates_zero:
  assumes "unat (l1_cache_hits c) + unat (l1_cache_misses c) + 1 < 2 ^ 64"
    and "unat (l2_cache_hits c) + unat (l2_cache_misses c) + 1 < 2 ^ 64"
    and "unat (l3_cache_hits c) + unat (l3_cache_misses c) + 1 < 2 ^ 64"
  shows "\<exists>m. extractMetrics c t = Inr m \<and> l1_hit_rate m = 0 \<and> l2_hit_rate m = 0
           \<and> l3_hit_rate m = 0"
  using assms by (simp add: extractMetrics_def udiv_hit_rate_zero to_double_def)

text \<open>C4. For the reading with 9 L1 hits and 0 misses, \<open>extractMetrics\<close> stores
  \<open>l1_hit_rate = 0\<close> (the integer quotient \<open>9 / 10\<close>), while the real-valued quotient of
  the specification is \<open>0.9\<close>.\<close>

theorem extractMetrics_integer_hit_rate:
  "extractMetrics counters_nine_hits 0 =
     Inr \<lparr>timestamp_ms = 0, l1_hit_rate = 0, l2_hit_rate = 0, l3_hit_rate = 0,
          instructions_per_cycle = 0, branch_accuracy = 1, prefetch_useful_rate = 0\<rparr>
   \<and> spec_hit_rate (l1_cache_hits counters_nine_hits) (l1_cache_misses counters_nine_hits)
       = 0.9"
  by (simp add: extractMetrics_def counters_nine_hits_def new_PerformanceCounters_def
      udiv_def to_double_def spec_hit_rate_def)

section \<open>Results on the adaptive runtime\<close>

subsection \<open>The metrics history\<close>

lemma store_in_history_bounded:
  "length h \<le> unat cap \<Longrightarrow> length (store_in_history cap h m) \<le> unat cap"
  by (simp add: store_in_history_def Let_def)

lemma drop_Suc_tl: "drop (Suc k) xs = tl (drop k xs)"
  by (simp add: drop_Suc drop_tl)

lemma store_in_history_drop:
  "store_in_history cap (drop (length ms - unat cap) ms) m
     = drop (length (ms @ [m]) - unat cap) (ms @ [m])"
proof (cases "length ms < unat cap")
  case True
  then show ?thesis by (simp add: store_in_history_def Let_def)
next
  case False
  define k where "k = length ms - unat cap"
  from False have le: "unat cap \<le> length ms" by simp
  then have k: "k \<le> length ms" and len: "length ms - k = unat cap"
    by (simp_all add: k_def)
  have sk: "length (ms @ [m]) - unat cap = Suc k" using le by (simp add: k_def)
  have app: "drop k (ms @ [m]) = drop k ms @ [m]" using k by simp
  have "drop (Suc k) (ms @ [m]) = tl (drop k (ms @ [m]))"
    by (rule drop_Suc_tl)
  then have rhs: "drop (Suc k) (ms @ [m]) = tl (drop k ms @ [m])" by (simp only: app)
  have "length (drop k ms @ [m]) > unat cap" using len by simp
  then have "store_in_history cap (drop k ms) m = tl (drop k ms @ [m])"
    by (simp add: store_in_history_def Let_def)
  with rhs sk show ?thesis by (simp add: k_def)
qed

lemma history_after_appends:
  "foldl (store_in_history cap) [] ms = drop (length ms - unat cap) ms"
proof (induction ms rule: rev_induct)
  case Nil
  then show ?case by simp
next
  case (snoc m ms)
  then show ?case using store_in_history_drop [of cap ms m] by simp
qed

lemma sampling_step_history:
  assumes "sampling_step t c (rt, t0) = Inr (rt', t1)"
    and "length (metrics_history rt) \<le> unat (history_size (config rt))"
  shows "length (metrics_history rt') \<le> unat (history_size (config rt')) \<and> config rt' = config rt"
  using assms
  by (auto simp: sampling_step_def store_in_history_bounded split: if_splits sum.splits)

lemma log_if_fields [simp]:
  "metrics_history (log_if b l rt) = metrics_history rt"
  "config (log_if b l rt) = config rt"
  "prefetcher (log_if b l rt) = prefetcher rt"
  "current_phase (log_if b l rt) = current_phase rt"
  "total_adaptations (log_if b l rt) = total_adaptations rt"
  "monitor (log_if b l rt) = monitor rt"
  by (simp_all add: log_if_def)

lemma updatePrefetchingStrategy_fields [simp]:
  "metrics_history (updatePrefetchingStrategy ph rt) = metrics_history rt"
  "config (updatePrefetchingStrategy ph rt) = config rt"
  "current_phase (updatePrefetchingStrategy ph rt) = current_phase rt"
  "total_adaptations (updatePrefetchingStrategy ph rt) = total_adaptations rt"
  "monitor (updatePrefetchingStrategy ph rt) = monitor rt"
  by (simp_all add: updatePrefetchingStrategy_def split: option.splits AR_ExecutionPhase.splits)

lemma adaptation_tick_fields [simp]:
  "metrics_history (adaptation_tick rt) = metrics_history rt"
  "config (adaptation_tick rt) = config rt"
  "monitor (adaptation_tick rt) = monitor rt"
  by (simp_all add: adaptation_tick_def Let_def)

lemma loop_iteration_history:
  assumes "loop_iteration t c (rt, t0) = Inr (rt', t1)"
    and "length (metrics_history rt) \<le> unat (history_size (config rt))"
  shows "length (metrics_history rt') \<le> unat (history_size (config rt')) \<and> config rt' = config rt"
  using assms sampling_step_history
  by (fastforce simp: loop_iteration_def split: sum.splits prod.splits)

lemma adaptationLoop_history:
  "adaptationLoop inputs (rt, t0) = Inr (rt', t1) \<Longrightarrow>
   length (metrics_history rt) \<le> unat (history_size (config rt)) \<Longrightarrow>
   length (metrics_history rt') \<le> unat (history_size (config rt')) \<and> config rt' = config rt"
proof (induction inputs arbitrary: rt t0)
  case Nil
  then show ?case by simp
next
  case (Cons a inputs)
  obtain t c where a: "a = (t, c)" by (cases a)
  from Cons.prems(1) a obtain rt1 t2 where
    it: "loop_iteration t c (rt, t0) = Inr (rt1, t2)" and
    rest: "adaptationLoop inputs (rt1, t2) = Inr (rt', t1)"
    by (auto split: sum.splits)
  have h1: "length (metrics_history rt1) \<le> unat (history_size (config rt1))"
    and c1: "config rt1 = config rt"
    using loop_iteration_history [OF it Cons.prems(2)] by blast+
  from Cons.IH [OF rest h1] have "length (metrics_history rt') \<le> unat (history_size (config rt'))"
    and "config rt' = config rt1" by blast+
  with c1 show ?case by auto
qed

text \<open>C6. Storing an entry keeps the history within the capacity; below capacity the
  entry is appended, at capacity the front (oldest) entry is dropped; after any sequence
  of appends to an empty history, the history is exactly the last \<open>capacity\<close> entries
  in insertion order; and every state the adaptation loop reaches from a freshly
  constructed runtime has at most \<open>history_size\<close> entries.\<close>

theorem history_bounded_fifo:
  "(length h \<le> unat cap \<longrightarrow> length (store_in_history cap h m) \<le> unat cap)
   \<and> (length h < unat cap \<longrightarrow> store_in_history cap h m = h @ [m])
   \<and> (length h = unat cap \<longrightarrow> store_in_history cap h m = tl (h @ [m]))
   \<and> foldl (store_in_history cap) [] ms = drop (length ms - unat cap) ms
   \<and> length (foldl (store_in_history cap) [] ms) \<le> unat cap
   \<and> (adaptationLoop inputs (new_AdaptiveRuntime mon pf cfg, t0) = Inr (rt', t1) \<longrightarrow>
        length (metrics_history rt') \<le> unat (history_size cfg))"
proof -
  have "adaptationLoop inputs (new_AdaptiveRuntime mon pf cfg, t0) = Inr (rt', t1) \<longrightarrow>
        length (metrics_history rt') \<le> unat (history_size cfg)"
  proof
    assume run: "adaptationLoop inputs (new_AdaptiveRuntime mon pf cfg, t0) = Inr (rt', t1)"
    have "length (metrics_history (new_AdaptiveRuntime mon pf cfg))
            \<le> unat (history_size (config (new_AdaptiveRuntime mon pf cfg)))"
      by (simp add: new_AdaptiveRuntime_def)
    from adaptationLoop_history [OF run this]
    have "length (metrics_history rt') \<le> unat (history_size (config rt'))"
      and "config rt' = config (new_AdaptiveRuntime mon pf cfg)" by blast+
    then show "length (metrics_history rt') \<le> unat (history_size cfg)"
      by (simp add: new_AdaptiveRuntime_def)
  qed
  then show ?thesis
    by (simp add: history_after_appends store_in_history_bounded)
       (simp add: store_in_history_def)
qed

theorem history_bounded_fifo_witness:
  "foldl (store_in_history 2) [] [metrics_at 1, metrics_at 2, metrics_at 3]
     = [metrics_at 2, metrics_at 3]
   \<and> store_in_history 2 [metrics_at 1, metrics_at 2] (metrics_at 3)
     = [metrics_at 2, metrics_at 3]
   \<and> store_in_history 2 [metrics_at 1] (metrics_at 2) = [metrics_at 1, metrics_at 2]"
  using history_bounded_fifo [of "[metrics_at 1, metrics_at 2]" 2 "metrics_at 3"
          "[metrics_at 1, metrics_at 2, metrics_at 3]" "[]" new_PerformanceMonitor None
          default_Config 0 "new_AdaptiveRuntime new_PerformanceMonitor None default_Config" 0]
        history_bounded_fifo [of "[metrics_at 1]" 2 "metrics_at 2"]
  by simp

subsection \<open>Manual phase hints\<close>

text \<open>C10. \<open>hintPhase(UNKNOWN)\<close> leaves the whole runtime state unchanged (prefetcher
  calls, hence distance and degree, included), and with no prefetcher attached
  \<open>hintPhase(p)\<close> changes nothing for any phase \<open>p\<close>.\<close>

theorem hintPhase_frame:
  "hintPhase UNKNOWN rt = rt \<and> (prefetcher rt = None \<longrightarrow> hintPhase ph rt = rt)"
  by (simp add: hintPhase_def updatePrefetchingStrategy_def split: option.splits)

theorem hintPhase_frame_witness:
  "hintPhase DENSE_SEQUENTIAL (new_AdaptiveRuntime new_PerformanceMonitor None default_Config)
     = new_AdaptiveRuntime new_PerformanceMonitor None default_Config
   \<and> hintPhase UNKNOWN (new_AdaptiveRuntime new_PerformanceMonitor (Some []) default_Config)
     = new_AdaptiveRuntime new_PerformanceMonitor (Some []) default_Config"
  using hintPhase_frame [of "new_AdaptiveRuntime new_PerformanceMonitor None default_Config"
          DENSE_SEQUENTIAL]
        hintPhase_frame [of "new_AdaptiveRuntime new_PerformanceMonitor (Some []) default_Config"]
  by (simp add: new_AdaptiveRuntime_def)

subsection \<open>The adaptation tick\<close>

lemma detect_not_unknown: "detectExecutionPhase m \<noteq> UNKNOWN"
  by (simp add: detectExecutionPhase_def)

lemma tick_below_ten: "length (metrics_history rt) < 10 \<Longrightarrow> adaptation_tick rt = rt"
  by (simp add: adaptation_tick_def)

lemma tick_same_phase:
  "detectExecutionPhase (computeAverageMetrics (metrics_history rt)) = current_phase rt
   \<Longrightarrow> adaptation_tick rt = rt"
  by (simp add: adaptation_tick_def Let_def)

lemma tick_phase:
  "10 \<le> length (metrics_history rt) \<Longrightarrow>
   current_phase (adaptation_tick rt)
     = detectExecutionPhase (computeAverageMetrics (metrics_history rt))"
  by (simp add: adaptation_tick_def Let_def)

lemma tick_idempotent: "adaptation_tick (adaptation_tick rt) = adaptation_tick rt"
proof (cases "10 \<le> length (metrics_history rt)")
  case True
  show ?thesis
    by (rule tick_same_phase) (simp add: tick_phase [OF True])
next
  case False
  then show ?thesis by (simp add: tick_below_ten)
qed

lemma tick_total:
  "10 \<le> length (metrics_history rt) \<Longrightarrow>
   detectExecutionPhase (computeAverageMetrics (metrics_history rt)) \<noteq> current_phase rt \<Longrightarrow>
   total_adaptations (adaptation_tick rt) = total_adaptations rt + 1"
  by (simp add: adaptation_tick_def Let_def)

lemma updatePrefetchingStrategy_prefetcher:
  "prefetcher rt = Some calls \<Longrightarrow>
   prefetcher (updatePrefetchingStrategy ph rt)
     = (case spec_strategy_table ph of
          None \<Rightarrow> Some calls
        | Some (d, g) \<Rightarrow> Some (calls @ [setPrefetchDistance d, setPrefetchDegree g]))"
  by (cases ph) (simp_all add: updatePrefetchingStrategy_def spec_strategy_table_def log_if_def)

lemma updatePrefetchingStrategy_null:
  "prefetcher rt = None \<Longrightarrow> updatePrefetchingStrategy ph rt = rt"
  by (simp add: updatePrefetchingStrategy_def)

lemma tick_prefetcher:
  assumes "10 \<le> length (metrics_history rt)"
    and "detectExecutionPhase (computeAverageMetrics (metrics_history rt)) = ph"
    and "ph \<noteq> current_phase rt"
    and "prefetcher rt = Some calls"
  shows "prefetcher (adaptation_tick rt)
     = map_option (\<lambda>(d, g). calls @ [setPrefetchDistance d, setPrefetchDegree g])
         (spec_strategy_table ph)"
proof -
  have "prefetcher (adaptation_tick rt) =
        prefetcher (updatePrefetchingStrategy ph
          (log_if (enable_logging (config rt)) (PhaseTransitionLine (current_phase rt) ph) rt))"
    using assms by (simp add: adaptation_tick_def Let_def)
  also have "\<dots> = (case spec_strategy_table ph of
          None \<Rightarrow> Some calls
        | Some (d, g) \<Rightarrow> Some (calls @ [setPrefetchDistance d, setPrefetchDegree g]))"
    by (rule updatePrefetchingStrategy_prefetcher) (simp add: assms)
  also have "\<dots> = map_option (\<lambda>(d, g). calls @ [setPrefetchDistance d, setPrefetchDegree g])
         (spec_strategy_table ph)"
    using detect_not_unknown [of "computeAverageMetrics (metrics_history rt)"] assms(2)
    by (cases ph) (simp_all add: spec_strategy_table_def)
  finally show ?thesis .
qed

lemma tick_null_prefetcher:
  "prefetcher rt = None \<Longrightarrow> prefetcher (adaptation_tick rt) = None"
  by (simp add: adaptation_tick_def Let_def updatePrefetchingStrategy_null)

lemma setters_in_force:
  "prefetch_distance_of (calls @ [setPrefetchDistance d, setPrefetchDegree g]) = Some d"
  "prefetch_degree_of (calls @ [setPrefetchDistance d, setPrefetchDegree g]) = Some g"
  by (simp_all add: prefetch_distance_of_def prefetch_degree_of_def)

text \<open>C3, as stated, fails: on a runtime in phase \<open>UNKNOWN\<close> whose ten-entry window
  classifies as \<open>DENSE_SEQUENTIAL\<close>, the tick switches the phase, and the attached
  prefetcher receives the two setter calls and nothing else: no \<open>reset\<close> is issued.\<close>

theorem adaptation_tick_no_reset_counterexample:
  "current_phase runtime_dense_window = UNKNOWN
   \<and> current_phase (adaptation_tick runtime_dense_window) = DENSE_SEQUENTIAL
   \<and> prefetcher (adaptation_tick runtime_dense_window)
       = Some [setPrefetchDistance 256, setPrefetchDegree 4]
   \<and> reset \<notin> set (the (prefetcher (adaptation_tick runtime_dense_window)))"
  by (simp add: runtime_dense_window_def new_AdaptiveRuntime_def adaptation_tick_def
      computeAverageMetrics_def detectExecutionPhase_def metrics_at_def Let_def
      updatePrefetchingStrategy_def log_if_def default_Config_def)

text \<open>C3, amended. A tick on fewer than 10 entries changes nothing. With at least 10
  entries, a detected phase equal to the active one changes nothing; a different one makes
  the attached prefetcher receive exactly \<open>setPrefetchDistance\<close> and
  \<open>setPrefetchDegree\<close> with the table's values for the new phase (256/4, 128/2, 64/1),
  sets the active phase and adds 1 to the adaptation counter; a second tick on the result
  changes nothing. From \<open>UNKNOWN\<close> with counter 0 and a window detected as
  \<open>DENSE_SEQUENTIAL\<close>: one transition, counter 1, distance 256 and degree 4.\<close>

theorem adaptation_tick_switch:
  "(length (metrics_history rt) < 10 \<longrightarrow> adaptation_tick rt = rt)
   \<and> (10 \<le> length (metrics_history rt)
        \<and> detectExecutionPhase (computeAverageMetrics (metrics_history rt)) = current_phase rt
      \<longrightarrow> adaptation_tick rt = rt)
   \<and> (10 \<le> length (metrics_history rt)
        \<and> detectExecutionPhase (computeAverageMetrics (metrics_history rt)) = ph
        \<and> ph \<noteq> current_phase rt \<and> prefetcher rt = Some calls
      \<longrightarrow> prefetcher (adaptation_tick rt)
            = map_option (\<lambda>(d, g). calls @ [setPrefetchDistance d, setPrefetchDegree g])
                (spec_strategy_table ph)
          \<and> spec_strategy_table ph \<noteq> None
          \<and> current_phase (adaptation_tick rt) = ph
          \<and> total_adaptations (adaptation_tick rt) = total_adaptations rt + 1
          \<and> adaptation_tick (adaptation_tick rt) = adaptation_tick rt)
   \<and> (10 \<le> length (metrics_history rt)
        \<and> detectExecutionPhase (computeAverageMetrics (metrics_history rt)) = DENSE_SEQUENTIAL
        \<and> current_phase rt = UNKNOWN \<and> total_adaptations rt = 0 \<and> prefetcher rt = Some calls
      \<longrightarrow> current_phase (adaptation_tick rt) = DENSE_SEQUENTIAL
          \<and> getTotalAdaptations (adaptation_tick rt) = 1
          \<and> prefetcher (adaptation_tick rt)
              = Some (calls @ [setPrefetchDistance 256, setPrefetchDegree 4])
          \<and> prefetch_distance_of (the (prefetcher (adaptation_tick rt))) = Some 256
          \<and> prefetch_degree_of (the (prefetcher (adaptation_tick rt))) = Some 4
          \<and> adaptation_tick (adaptation_tick rt) = adaptation_tick rt)"
proof (intro conjI impI)
  assume "length (metrics_history rt) < 10"
  then show "adaptation_tick rt = rt" by (rule tick_below_ten)
next
  assume "10 \<le> length (metrics_history rt)
        \<and> detectExecutionPhase (computeAverageMetrics (metrics_history rt)) = current_phase rt"
  then show "adaptation_tick rt = rt" by (simp add: tick_same_phase)
next
  assume a: "10 \<le> length (metrics_history rt)
        \<and> detectExecutionPhase (computeAverageMetrics (metrics_history rt)) = ph
        \<and> ph \<noteq> current_phase rt \<and> prefetcher rt = Some calls"
  then show "prefetcher (adaptation_tick rt)
            = map_option (\<lambda>(d, g). calls @ [setPrefetchDistance d, setPrefetchDegree g])
                (spec_strategy_table ph)"
    by (simp add: tick_prefetcher)
  from a detect_not_unknown [of "computeAverageMetrics (metrics_history rt)"]
  show "spec_strategy_table ph \<noteq> None"
    by (cases ph) (simp_all add: spec_strategy_table_def)
  from a show "current_phase (adaptation_tick rt) = ph" by (simp add: tick_phase)
  from a show "total_adaptations (adaptation_tick rt) = total_adaptations rt + 1"
    by (simp add: tick_total)
  show "adaptation_tick (adaptation_tick rt) = adaptation_tick rt" by (rule tick_idempotent)
next
  assume a: "10 \<le> length (metrics_history rt)
        \<and> detectExecutionPhase (computeAverageMetrics (metrics_history rt)) = DENSE_SEQUENTIAL
        \<and> current_phase rt = UNKNOWN \<and> total_adaptations rt = 0 \<and> prefetcher rt = Some calls"
  then have p: "prefetcher (adaptation_tick rt)
              = Some (calls @ [setPrefetchDistance 256, setPrefetchDegree 4])"
    using tick_prefetcher [of rt DENSE_SEQUENTIAL calls] by (simp add: spec_strategy_table_def)
  then show "prefetcher (adaptation_tick rt)
              = Some (calls @ [setPrefetchDistance 256, setPrefetchDegree 4])" .
  from a show "current_phase (adaptation_tick rt) = DENSE_SEQUENTIAL" by (simp add: tick_phase)
  from a show "getTotalAdaptations (adaptation_tick rt) = 1"
    by (simp add: tick_total getTotalAdaptations_def)
  from p show "prefetch_distance_of (the (prefetcher (adaptation_tick rt))) = Some 256"
    by (simp add: setters_in_force)
  from p show "prefetch_degree_of (the (prefetcher (adaptation_tick rt))) = Some 4"
    by (simp add: setters_in_force)
  show "adaptation_tick (adaptation_tick rt) = adaptation_tick rt" by (rule tick_idempotent)
qed

lemma dense_window_detected:
  "detectExecutionPhase (computeAverageMetrics (metrics_history runtime_dense_window))
     = DENSE_SEQUENTIAL"
  by (simp add: runtime_dense_window_def new_AdaptiveRuntime_def
      computeAverageMetrics_def detectExecutionPhase_def metrics_at_def Let_def)

theorem adaptation_tick_switch_witness:
  "current_phase (adaptation_tick runtime_dense_window) = DENSE_SEQUENTIAL
   \<and> getTotalAdaptations (adaptation_tick runtime_dense_window) = 1
   \<and> prefetcher (adaptation_tick runtime_dense_window)
       = Some [setPrefetchDistance 256, setPrefetchDegree 4]
   \<and> adaptation_tick (new_AdaptiveRuntime new_PerformanceMonitor (Some []) default_Config)
       = new_AdaptiveRuntime new_PerformanceMonitor (Some []) default_Config
   \<and> adaptation_tick (adaptation_tick runtime_dense_window)
       = adaptation_tick runtime_dense_window"
proof -
  have h: "10 \<le> length (metrics_history runtime_dense_window)"
    "current_phase runtime_dense_window = UNKNOWN"
    "total_adaptations runtime_dense_window = 0"
    "prefetcher runtime_dense_window = Some []"
    by (simp_all add: runtime_dense_window_def new_AdaptiveRuntime_def)
  have e: "length (metrics_history
             (new_AdaptiveRuntime new_PerformanceMonitor (Some []) default_Config)) < 10"
    by (simp add: new_AdaptiveRuntime_def)
  show ?thesis
    using adaptation_tick_switch [of runtime_dense_window DENSE_SEQUENTIAL "[]"]
      adaptation_tick_switch
        [of "new_AdaptiveRuntime new_PerformanceMonitor (Some []) default_Config"]
      h e dense_window_detected
    by (simp add: spec_strategy_table_def)
qed

subsection \<open>Unavailable monitoring\<close>
























section \<open>Results on the strided prefetcher\<close>

lemma feed_addresses_snoc:
  "feed_addresses (addrs @ [a]) p = detectStride a (feed_addresses addrs p)"
  by (simp add: feed_addresses_def)

text \<open>C7. Fed the addresses 0, 5, 69, 133, 197, 261, 325, 389, a fresh prefetcher ends
  with \<open>detected_stride = 64\<close> (it was 0 before the eighth call), although the deltas of
  that window are 5 followed by six times 64: the delta after the null address is never
  recorded, because \<open>prev_addr != nullptr\<close> is the test for "no previous address".\<close>

theorem detectStride_null_address_adopts_stride:
  "detected_stride (feed_addresses null_first_window new_StridedPrefetcher) = 64
   \<and> detected_stride (feed_addresses (butlast null_first_window) new_StridedPrefetcher) = 0
   \<and> spec_deltas null_first_window = [5, 64, 64, 64, 64, 64, 64]
   \<and> \<not> spec_window_consistent null_first_window"
  by (simp add: null_first_window_def feed_addresses_def new_StridedPrefetcher_def
      detectStride_def HISTORY_SIZE_def spec_window_consistent_def Let_def)

text \<open>The parts of C7 that hold: the constant-stride sequence yields stride 64; a call
  whose window holds no null address before the new one and is not consistent keeps the
  stride; the queue after feeding any sequence is its last 8 addresses in order.\<close>

lemma golden_stride_detected:
  "detected_stride (feed_addresses golden_addresses new_StridedPrefetcher) = 64"
  by (simp add: golden_addresses_def feed_addresses_def new_StridedPrefetcher_def
      detectStride_def HISTORY_SIZE_def Let_def)

lemma collect_strides_no_null:
  "prev \<noteq> 0 \<Longrightarrow> 0 \<notin> set (butlast w) \<Longrightarrow> collect_strides prev w = spec_deltas (prev # w)"
  by (induction w arbitrary: prev) (auto split: if_splits)

lemma collect_strides_from_null:
  assumes "0 \<notin> set (butlast w)"
  shows "collect_strides 0 w = spec_deltas w"
proof (cases w)
  case Nil
  then show ?thesis by simp
next
  case outer: (Cons a rest)
  show ?thesis
  proof (cases rest)
    case Nil
    with outer show ?thesis by simp
  next
    case (Cons b rest')
    with outer assms have "a \<noteq> 0" and "0 \<notin> set (butlast rest)" by auto
    then show ?thesis using outer by (simp add: collect_strides_no_null)
  qed
qed

lemma consistent_from_list_all: "consistent_from d ds = list_all (\<lambda>x. x = d) ds"
  by (induction ds) auto

lemma detectStride_keeps_stride:
  assumes "0 \<notin> set (recent_addresses p)"
    and "\<not> spec_window_consistent (recent_addresses p @ [addr])"
  shows "detected_stride (detectStride addr p) = detected_stride p"
proof -
  have "collect_strides 0 (recent_addresses p @ [addr]) = spec_deltas (recent_addresses p @ [addr])"
    using assms(1) by (simp add: collect_strides_from_null)
  with assms(2) show ?thesis
    by (auto simp: detectStride_def Let_def spec_window_consistent_def consistent_from_list_all
        split: list.splits)
qed

lemma detectStride_short_window:
  "length (recent_addresses p) + 1 < HISTORY_SIZE \<Longrightarrow>
   detected_stride (detectStride addr p) = detected_stride p"
  by (simp add: detectStride_def Let_def)

lemma detectStride_recent:
  "recent_addresses (detectStride addr p)
     = (let pushed = recent_addresses p @ [addr]
        in if length pushed > HISTORY_SIZE then tl pushed else pushed)"
  by (simp add: detectStride_def Let_def)

lemma window_push_drop:
  "(let pushed = drop (length ms - c) ms @ [m] in if length pushed > c then tl pushed else pushed)
     = drop (length (ms @ [m]) - c) (ms @ [m])"
proof (cases "length ms < c")
  case True
  then show ?thesis by (simp add: Let_def)
next
  case False
  define k where "k = length ms - c"
  from False have le: "c \<le> length ms" by simp
  then have k: "k \<le> length ms" and len: "length ms - k = c"
    by (simp_all add: k_def)
  have sk: "length (ms @ [m]) - c = Suc k" using le by (simp add: k_def)
  have app: "drop k (ms @ [m]) = drop k ms @ [m]" using k by simp
  have "drop (Suc k) (ms @ [m]) = tl (drop k (ms @ [m]))"
    by (rule drop_Suc_tl)
  then have rhs: "drop (Suc k) (ms @ [m]) = tl (drop k ms @ [m])" by (simp only: app)
  have "length (drop k ms @ [m]) > c" using len by simp
  then have "(let pushed = drop k ms @ [m] in if length pushed > c then tl pushed else pushed)
               = tl (drop k ms @ [m])"
    by (simp add: Let_def)
  with rhs sk show ?thesis by (simp add: k_def)
qed

lemma feed_addresses_window:
  "recent_addresses (feed_addresses addrs new_StridedPrefetcher)
     = drop (length addrs - HISTORY_SIZE) addrs"
proof (induction addrs rule: rev_induct)
  case Nil
  then show ?case by (simp add: feed_addresses_def new_StridedPrefetcher_def)
next
  case (snoc a addrs)
  show ?case
    by (simp only: feed_addresses_snoc detectStride_recent snoc window_push_drop)
qed

section \<open>Results on the IMA prefetcher\<close>

lemma learn_chain_same:
  "pointer_chains (learnPointerChain a b p) a
     = Some (let chain = (case pointer_chains p a of None \<Rightarrow> [] | Some c \<Rightarrow> c)
             in if length chain < MAX_CHAIN_LENGTH then chain @ [b] else tl chain @ [b])"
  by (simp add: learnPointerChain_def Let_def)

lemma learn_chain_other:
  "k \<noteq> a \<Longrightarrow> pointer_chains (learnPointerChain a b p) k = pointer_chains p k"
  by (simp add: learnPointerChain_def Let_def)

lemma learn_fields [simp]:
  "ima_prefetch_distance (learnPointerChain a b p) = ima_prefetch_distance p"
  "ima_cache_line_size (learnPointerChain a b p) = ima_cache_line_size p"
  by (simp_all add: learnPointerChain_def Let_def)

lemma learn_keeps_bound:
  "chain_length p k \<le> MAX_CHAIN_LENGTH \<Longrightarrow>
   chain_length (learnPointerChain a b p) k \<le> MAX_CHAIN_LENGTH"
proof (cases "k = a")
  case True
  assume "chain_length p k \<le> MAX_CHAIN_LENGTH"
  with True show ?thesis
    by (auto simp: chain_length_def learn_chain_same Let_def MAX_CHAIN_LENGTH_def
        split: option.splits)
next
  case False
  assume "chain_length p k \<le> MAX_CHAIN_LENGTH"
  with False show ?thesis by (simp add: chain_length_def learn_chain_other)
qed

lemma learn_all_snoc:
  "learn_all (pairs @ [(a, b)]) p = learnPointerChain a b (learn_all pairs p)"
  by (simp add: learn_all_def)

lemma learn_all_bound:
  "chain_length (learn_all pairs new_IMAPrefetcher) k \<le> MAX_CHAIN_LENGTH"
proof (induction pairs rule: rev_induct)
  case Nil
  then show ?case by (simp add: learn_all_def chain_length_def new_IMAPrefetcher_def)
next
  case (snoc ab pairs)
  obtain a b where "ab = (a, b)" by (cases ab)
  with snoc show ?case by (simp add: learn_all_snoc learn_keeps_bound)
qed

lemma learned_last:
  "\<exists>c. pointer_chains (learnPointerChain a b p) a = Some (c @ [b])"
  by (simp add: learn_chain_same Let_def)

lemma learned_is_hinted:
  assumes "chain_length (learnPointerChain a b p) a \<le> unat (ima_prefetch_distance p)"
  shows "b \<in> set (ima_prefetch a (learnPointerChain a b p))"
proof -
  obtain c where c: "pointer_chains (learnPointerChain a b p) a = Some (c @ [b])"
    using learned_last by blast
  with assms have "length (c @ [b]) \<le> unat (ima_prefetch_distance p)"
    by (simp add: chain_length_def)
  with c show ?thesis by (simp add: ima_prefetch_def)
qed

text \<open>C8, as stated, fails: a default-constructed prefetcher (distance 1) that learned
  8192 and then 12288 as successors of 4096 hints only 8192 for 4096; the successor
  learned last is not hinted.\<close>

theorem ima_prefetch_oldest_first_counterexample:
  "1 \<le> unat (ima_prefetch_distance ima_two_successors)
   \<and> ima_prefetch 4096 ima_two_successors = [8192]
   \<and> 12288 \<notin> set (ima_prefetch 4096 ima_two_successors)"
  by (simp add: ima_two_successors_def learnPointerChain_def new_IMAPrefetcher_def
      ima_prefetch_def MAX_CHAIN_LENGTH_def Let_def)

text \<open>C8, amended. After \<open>learnPointerChain(A, B)\<close>, \<open>prefetch(A)\<close> hints \<open>B\<close>
  whenever the distance is at least the length of the successor list of \<open>A\<close> (hints go
  to the oldest entries first), and hints exactly \<open>B\<close> when \<open>A\<close> had no list and the
  distance is at least 1. No successor list ever exceeds 4 entries. Learning a fifth
  successor drops the oldest one, which is then no longer hinted unless it was learned
  again among the later four. An address without a list gets the single hint
  \<open>address + stride\<close>.\<close>

theorem ima_learn_and_prefetch:
  "(chain_length (learnPointerChain a b p) a \<le> unat (ima_prefetch_distance p) \<longrightarrow>
      b \<in> set (ima_prefetch a (learnPointerChain a b p)))
   \<and> (pointer_chains p a = None \<and> 1 \<le> unat (ima_prefetch_distance p) \<longrightarrow>
      ima_prefetch a (learnPointerChain a b p) = [b])
   \<and> chain_length (learn_all pairs new_IMAPrefetcher) k \<le> MAX_CHAIN_LENGTH
   \<and> (chain_length p k \<le> MAX_CHAIN_LENGTH \<longrightarrow>
      chain_length (learnPointerChain a b p) k \<le> MAX_CHAIN_LENGTH)
   \<and> (pointer_chains p a = Some [s1, s2, s3, s4] \<longrightarrow>
      pointer_chains (learnPointerChain a s5 p) a = Some [s2, s3, s4, s5]
      \<and> (s1 \<notin> {s2, s3, s4, s5} \<longrightarrow> s1 \<notin> set (ima_prefetch a (learnPointerChain a s5 p))))
   \<and> (pointer_chains p a = None \<longrightarrow> ima_prefetch a p = [a + ima_cache_line_size p])"
proof (intro conjI impI)
  assume "chain_length (learnPointerChain a b p) a \<le> unat (ima_prefetch_distance p)"
  then show "b \<in> set (ima_prefetch a (learnPointerChain a b p))" by (rule learned_is_hinted)
next
  assume "pointer_chains p a = None \<and> 1 \<le> unat (ima_prefetch_distance p)"
  then show "ima_prefetch a (learnPointerChain a b p) = [b]"
    by (simp add: ima_prefetch_def learn_chain_same MAX_CHAIN_LENGTH_def)
next
  show "chain_length (learn_all pairs new_IMAPrefetcher) k \<le> MAX_CHAIN_LENGTH"
    by (rule learn_all_bound)
next
  assume "chain_length p k \<le> MAX_CHAIN_LENGTH"
  then show "chain_length (learnPointerChain a b p) k \<le> MAX_CHAIN_LENGTH"
    by (rule learn_keeps_bound)
next
  assume four: "pointer_chains p a = Some [s1, s2, s3, s4]"
  then show evict: "pointer_chains (learnPointerChain a s5 p) a = Some [s2, s3, s4, s5]"
    by (simp add: learn_chain_same MAX_CHAIN_LENGTH_def)
  assume "s1 \<notin> {s2, s3, s4, s5}"
  then have "s1 \<notin> set [s2, s3, s4, s5]" by simp
  then have "s1 \<notin> set (take (unat (ima_prefetch_distance p)) [s2, s3, s4, s5])"
    using in_set_takeD by fast
  then show "s1 \<notin> set (ima_prefetch a (learnPointerChain a s5 p))"
    by (simp add: ima_prefetch_def evict)
next
  assume "pointer_chains p a = None"
  then show "ima_prefetch a p = [a + ima_cache_line_size p]" by (simp add: ima_prefetch_def)
qed

lemma ima_four_successors_chain:
  "pointer_chains ima_four_successors 4096 = Some [100, 200, 300, 400]"
  "pointer_chains ima_four_successors 64 = None"
  "ima_prefetch_distance ima_four_successors = 4"
  "ima_cache_line_size ima_four_successors = 64"
  by (simp_all add: ima_four_successors_def learn_all_def learnPointerChain_def
      ima_configure_def new_IMAPrefetcher_def MAX_CHAIN_LENGTH_def Let_def)

theorem ima_learn_and_prefetch_witness:
  "500 \<in> set (ima_prefetch 4096 (learnPointerChain 4096 500 ima_four_successors))
   \<and> ima_prefetch 64 (learnPointerChain 64 500 ima_four_successors) = [500]
   \<and> pointer_chains (learnPointerChain 4096 500 ima_four_successors) 4096
       = Some [200, 300, 400, 500]
   \<and> 100 \<notin> set (ima_prefetch 4096 (learnPointerChain 4096 500 ima_four_successors))
   \<and> chain_length (learnPointerChain 4096 500 ima_four_successors) 4096 \<le> MAX_CHAIN_LENGTH
   \<and> ima_prefetch 64 ima_four_successors = [128]"
proof -
  have len: "chain_length (learnPointerChain 4096 500 ima_four_successors) 4096
               \<le> unat (ima_prefetch_distance ima_four_successors)"
    "chain_length ima_four_successors 4096 \<le> MAX_CHAIN_LENGTH"
    by (simp_all add: chain_length_def learn_chain_same ima_four_successors_chain
        MAX_CHAIN_LENGTH_def)
  show ?thesis
    using ima_learn_and_prefetch [of 4096 500 ima_four_successors "[]" 4096 100 200 300 400 500]
      ima_learn_and_prefetch [of 64 500 ima_four_successors "[]" 64]
      len ima_four_successors_chain
    by simp
qed

end
